theory Spec2Isabelle
  imports Complex_Main
begin

section \<open>Tensors and the tensor-library primitives used by model.py\<close>

text \<open>
  model.py builds its networks from a handful of PyTorch primitives: \<open>torch.mm\<close>,
  \<open>torch.spmm\<close>, broadcasting \<open>+\<close>, \<open>F.relu\<close>, \<open>F.dropout\<close>, \<open>Tensor.view\<close>,
  \<open>F.sigmoid\<close> and \<open>F.softmax\<close>. They are library code, so they are modelled here
  from their documented behaviour.

  The modules are written once, over an arbitrary type of tensor entries with its own
  \<open>0\<close>, \<open>1\<close>, \<open>+\<close>, \<open>-\<close>, \<open>*\<close>, \<open>/\<close> and \<open><\<close>, and read at two types. At type \<open>real\<close>
  the entries are exact numbers: this reading says which products and sums a forward
  pass composes and what shapes it returns. At type \<open>f32\<close>, defined below, the entries
  are the values of a \<open>FloatTensor\<close>: finite single-precision numbers, the two infinities
  and NaN, every operation rounded to nearest. This is the reading in which a statement
  about the values the code returns is settled.

  A two-dimensional tensor carries its shape explicitly, as in the library, so that a
  tensor with no rows still has a number of columns.
\<close>

datatype error = RuntimeError | ValueError | ZeroDivisionError

type_synonym 'a result = "error + 'a"

definition bind_result :: "'a result \<Rightarrow> ('a \<Rightarrow> 'b result) \<Rightarrow> 'b result" where
  "bind_result m f = (case m of Inl e \<Rightarrow> Inl e | Inr v \<Rightarrow> f v)"

record 'a tensor =
  nrows :: nat
  ncols :: nat
  rows :: "'a list list"

definition tensor_ok :: "'a tensor \<Rightarrow> bool" where
  "tensor_ok t \<longleftrightarrow>
     length (rows t) = nrows t \<and> list_all (\<lambda>r. length r = ncols t) (rows t)"

definition has_shape :: "'a tensor \<Rightarrow> nat \<Rightarrow> nat \<Rightarrow> bool" where
  "has_shape t n m \<longleftrightarrow> nrows t = n \<and> ncols t = m \<and> tensor_ok t"

definition entry :: "'a tensor \<Rightarrow> nat \<Rightarrow> nat \<Rightarrow> 'a" where
  "entry t i j = rows t ! i ! j"


definition column :: "'a tensor \<Rightarrow> nat \<Rightarrow> 'a list" where
  "column t j = map (\<lambda>r. r ! j) (rows t)"

text \<open>The inner product of a row and a column: the products are accumulated one after
  the other, starting from zero.\<close>

definition dot :: "'a::{plus,times,zero} list \<Rightarrow> 'a list \<Rightarrow> 'a" where
  "dot u v = foldr (+) (map2 (*) u v) 0"

text \<open>\<open>torch.mm(a, b)\<close>: the matrix product; a \<open>RuntimeError\<close> when the inner
  dimensions differ.\<close>

definition mm :: "'a::{plus,times,zero} tensor \<Rightarrow> 'a tensor \<Rightarrow> 'a tensor result" where
  "mm a b =
     (if ncols a \<noteq> nrows b then Inl RuntimeError
      else Inr \<lparr>nrows = nrows a, ncols = ncols b,
                rows = map (\<lambda>r. map (\<lambda>j. dot r (column b j)) [0..<ncols b]) (rows a)\<rparr>)"

text \<open>\<open>torch.spmm(adj, support)\<close>: the same product with a first argument that may be
  stored sparsely. The storage layout is not modelled; the adjacency matrix is given by
  its dense entries and the result is the dense product.\<close>

definition spmm :: "'a::{plus,times,zero} tensor \<Rightarrow> 'a tensor \<Rightarrow> 'a tensor result" where
  "spmm adj support = mm adj support"

text \<open>\<open>t + b\<close> and \<open>t - b\<close> for a matrix \<open>t\<close> and a vector \<open>b\<close>, with the library's
  broadcasting: the vector is aligned with the last dimension; the sizes must agree or
  one of them must be 1.\<close>

definition broadcast_op :: "('a \<Rightarrow> 'a \<Rightarrow> 'a) \<Rightarrow> 'a tensor \<Rightarrow> 'a list \<Rightarrow> 'a tensor result" where
  "broadcast_op f t b =
     (if length b = ncols t then Inr (t\<lparr>rows := map (\<lambda>r. map2 f r b) (rows t)\<rparr>)
      else if length b = 1 then Inr (t\<lparr>rows := map (map (\<lambda>v. f v (hd b))) (rows t)\<rparr>)
      else if ncols t = 1 then
        Inr \<lparr>nrows = nrows t, ncols = length b,
             rows = map (\<lambda>r. map (\<lambda>c. f (hd r) c) b) (rows t)\<rparr>
      else Inl RuntimeError)"

definition tensor_add :: "'a::plus tensor \<Rightarrow> 'a list \<Rightarrow> 'a tensor result" where
  "tensor_add t b = broadcast_op (+) t b"

definition tensor_sub :: "'a::minus tensor \<Rightarrow> 'a list \<Rightarrow> 'a tensor result" where
  "tensor_sub t b = broadcast_op (-) t b"

text \<open>\<open>F.relu\<close>: a negative entry becomes 0, every other entry is kept. On exact numbers
  this is the maximum with 0; on floats it keeps NaN, as the library does.\<close>

definition relu :: "'a::{zero,ord} tensor \<Rightarrow> 'a tensor" where
  "relu t = t\<lparr>rows := map (map (\<lambda>v. if v < 0 then 0 else v)) (rows t)\<rparr>"

text \<open>
  \<open>F.dropout(x, p, training)\<close>. A probability outside \<open>[0, 1]\<close> is a \<open>ValueError\<close>,
  whatever the mode. Outside training mode (and for \<open>p = 0\<close>, or an empty tensor) the
  input is returned unchanged and the random generator is not touched. For \<open>p = 1\<close> the
  result is the input times zero. Otherwise one Bernoulli draw per entry is taken from the
  generator, in row-major order; a kept entry is scaled by \<open>1 / (1 - p)\<close>, a dropped one
  is multiplied by zero.

  The generator is explicit state: the sequence of draws it will hand out next
  (\<open>True\<close> means keep).
\<close>

type_synonym rng = "nat \<Rightarrow> bool"

definition advance :: "nat \<Rightarrow> rng \<Rightarrow> rng" where
  "advance k g = (\<lambda>i. g (i + k))"

definition noise :: "'a::{zero,one,minus,inverse} \<Rightarrow> rng \<Rightarrow> nat \<Rightarrow> 'a" where
  "noise p g i = (if g i then 1 else 0) / (1 - p)"

definition dropout ::
  "'a::{zero,one,minus,times,inverse,ord} \<Rightarrow> bool \<Rightarrow> 'a tensor \<Rightarrow> rng \<Rightarrow> ('a tensor \<times> rng) result"
  where
  "dropout p training x g =
     (if p < 0 \<or> p > 1 then Inl ValueError
      else if p = 0 \<or> \<not> training \<or> nrows x * ncols x = 0 then Inr (x, g)
      else if p = 1 then Inr (x\<lparr>rows := map (map (\<lambda>v. v * 0)) (rows x)\<rparr>, g)
      else Inr (x\<lparr>rows := map (\<lambda>i. map (\<lambda>j. rows x ! i ! j * noise p g (i * ncols x + j))
                                        [0..<ncols x]) [0..<nrows x]\<rparr>,
                advance (nrows x * ncols x) g))"

text \<open>\<open>a.view(n)\<close>: the same entries, in row-major order, as a vector of length \<open>n\<close>;
  a \<open>RuntimeError\<close> when the tensor does not have exactly \<open>n\<close> entries.\<close>

definition view :: "'a tensor \<Rightarrow> nat \<Rightarrow> 'a list result" where
  "view a n = (if nrows a * ncols a = n then Inr (concat (rows a)) else Inl RuntimeError)"

text \<open>\<open>F.sigmoid\<close>, elementwise, and \<open>F.softmax(x, dim=0)\<close> on a vector, on exact
  numbers.\<close>

definition sigmoid :: "real \<Rightarrow> real" where
  "sigmoid v = 1 / (1 + exp (- v))"

definition F_sigmoid :: "real list \<Rightarrow> real list" where
  "F_sigmoid xs = map sigmoid xs"

definition F_softmax :: "real list \<Rightarrow> real list" where
  "F_softmax xs = map (\<lambda>v. exp v / sum_list (map exp xs)) xs"

section \<open>Single-precision entries\<close>

text \<open>
  The values of a \<open>FloatTensor\<close> entry: a finite number, plus or minus infinity, or NaN.
  The two zeros are one value here, and \<open>=\<close> on NaN is the equality of HOL (NaN is one
  value, equal to itself); the comparisons \<open><\<close> and \<open>\<le>\<close> are those of the machine, false
  whenever an argument is NaN.
\<close>

datatype f32 = Num real | PInf | NInf | NaN

text \<open>
  Rounding to nearest, ties to even, with 24 bits of precision: the unit in the last
  place of a number in the binade \<open>[2\<^sup>e, 2\<^sup>e\<^sup>+\<^sup>1)\<close> is \<open>2\<^sup>e\<^sup>-\<^sup>2\<^sup>3\<close>, and never less than
  \<open>2\<^sup>-\<^sup>1\<^sup>4\<^sup>9\<close> (subnormal numbers); a result of magnitude \<open>2\<^sup>1\<^sup>2\<^sup>8\<close> or more is an infinity.
\<close>

definition expo :: "real \<Rightarrow> int" where
  "expo x = max \<lfloor>log 2 \<bar>x\<bar>\<rfloor> (- 126)"

definition ulp :: "real \<Rightarrow> real" where
  "ulp x = 2 powi (expo x - 23)"

definition round_even :: "real \<Rightarrow> int" where
  "round_even q =
     (if q - of_int \<lfloor>q\<rfloor> < 1 / 2 then \<lfloor>q\<rfloor>
      else if 1 / 2 < q - of_int \<lfloor>q\<rfloor> then \<lfloor>q\<rfloor> + 1
      else if even \<lfloor>q\<rfloor> then \<lfloor>q\<rfloor> else \<lfloor>q\<rfloor> + 1)"

definition round32 :: "real \<Rightarrow> f32" where
  "round32 x =
     (let r = ulp x * of_int (round_even (x / ulp x))
      in if 2 ^ 128 \<le> \<bar>r\<bar> then (if 0 < x then PInf else NInf) else Num r)"



fun fneg :: "f32 \<Rightarrow> f32" where
  "fneg (Num a) = Num (- a)"
| "fneg PInf = NInf"
| "fneg NInf = PInf"
| "fneg NaN = NaN"

fun fadd :: "f32 \<Rightarrow> f32 \<Rightarrow> f32" where
  "fadd (Num a) (Num b) = round32 (a + b)"
| "fadd NaN y = NaN"
| "fadd x NaN = NaN"
| "fadd PInf NInf = NaN"
| "fadd NInf PInf = NaN"
| "fadd PInf y = PInf"
| "fadd x PInf = PInf"
| "fadd NInf y = NInf"
| "fadd x NInf = NInf"

fun fmul :: "f32 \<Rightarrow> f32 \<Rightarrow> f32" where
  "fmul (Num a) (Num b) = round32 (a * b)"
| "fmul NaN y = NaN"
| "fmul x NaN = NaN"
| "fmul (Num a) PInf = (if a = 0 then NaN else if 0 < a then PInf else NInf)"
| "fmul (Num a) NInf = (if a = 0 then NaN else if 0 < a then NInf else PInf)"
| "fmul PInf (Num b) = (if b = 0 then NaN else if 0 < b then PInf else NInf)"
| "fmul NInf (Num b) = (if b = 0 then NaN else if 0 < b then NInf else PInf)"
| "fmul PInf PInf = PInf"
| "fmul NInf NInf = PInf"
| "fmul PInf NInf = NInf"
| "fmul NInf PInf = NInf"

fun fdiv :: "f32 \<Rightarrow> f32 \<Rightarrow> f32" where
  "fdiv (Num a) (Num b) =
     (if b = 0 then (if a = 0 then NaN else if 0 < a then PInf else NInf)
      else round32 (a / b))"
| "fdiv NaN y = NaN"
| "fdiv x NaN = NaN"
| "fdiv (Num a) PInf = Num 0"
| "fdiv (Num a) NInf = Num 0"
| "fdiv PInf (Num b) = (if 0 \<le> b then PInf else NInf)"
| "fdiv NInf (Num b) = (if 0 \<le> b then NInf else PInf)"
| "fdiv PInf y = NaN"
| "fdiv NInf y = NaN"

fun fless :: "f32 \<Rightarrow> f32 \<Rightarrow> bool" where
  "fless (Num a) (Num b) = (a < b)"
| "fless NaN y = False"
| "fless x NaN = False"
| "fless NInf NInf = False"
| "fless PInf y = False"
| "fless NInf y = True"
| "fless x PInf = True"
| "fless x NInf = False"

fun fleq :: "f32 \<Rightarrow> f32 \<Rightarrow> bool" where
  "fleq (Num a) (Num b) = (a \<le> b)"
| "fleq NaN y = False"
| "fleq x NaN = False"
| "fleq NInf y = True"
| "fleq x PInf = True"
| "fleq PInf y = False"
| "fleq x NInf = False"



instantiation f32 :: "{zero, one, plus, minus, uminus, times, inverse, ord}"
begin

definition zero_f32_def: "(0 :: f32) = Num 0"

definition one_f32_def: "(1 :: f32) = Num 1"

definition plus_f32_def: "(a :: f32) + b = fadd a b"

definition uminus_f32_def: "- (a :: f32) = fneg a"

definition minus_f32_def: "(a :: f32) - b = fadd a (fneg b)"

definition times_f32_def: "(a :: f32) * b = fmul a b"

definition divide_f32_def: "(a :: f32) div b = fdiv a b"

definition inverse_f32_def: "inverse (a :: f32) = fdiv (Num 1) a"

definition less_f32_def: "(a :: f32) < b \<longleftrightarrow> fless a b"

definition less_eq_f32_def: "(a :: f32) \<le> b \<longleftrightarrow> fleq a b"

instance ..

end




section \<open>The modules of model.py\<close>

subsection \<open>GCN\<close>

text \<open>A layer owns a weight of shape \<open>(in_features, out_features)\<close> and, when built
  with \<open>bias=True\<close>, a bias of length \<open>out_features\<close>; \<open>None\<close> otherwise.\<close>

record 'a GCN =
  in_features :: nat
  out_features :: nat
  weight :: "'a tensor"
  bias :: "'a list option"

text \<open>
  \<open>GCN.__init__\<close> allocates the parameters and \<open>reset_parameters\<close> fills them with
  samples from the uniform distribution on \<open>[-stdv, stdv)\<close>, where
  \<open>stdv = 1 / sqrt(out_features)\<close>: first the weight, in row-major order, then the bias.
  With \<open>out_features = 0\<close> the division raises. The samples come from the library's
  generator, modelled here by the sequence of uniform samples on \<open>[0, 1)\<close> that it will
  hand out next. The constructors are read on exact numbers only: what matters of them
  below is the shapes they establish.
\<close>

type_synonym uniform_source = "nat \<Rightarrow> real"

definition uniform_sample :: "real \<Rightarrow> real \<Rightarrow> real \<Rightarrow> real" where
  "uniform_sample lo hi u = lo + (hi - lo) * u"

definition GCN_init ::
  "nat \<Rightarrow> nat \<Rightarrow> bool \<Rightarrow> uniform_source \<Rightarrow> (real GCN \<times> uniform_source) result" where
  "GCN_init fin fout with_bias u =
     (if sqrt (real fout) = 0 then Inl ZeroDivisionError
      else
        let stdv = 1 / sqrt (real fout);
            w = \<lparr>nrows = fin, ncols = fout,
                 rows = map (\<lambda>i. map (\<lambda>j. uniform_sample (- stdv) stdv (u (i * fout + j)))
                                  [0..<fout]) [0..<fin]\<rparr>;
            u1 = (\<lambda>i. u (i + fin * fout))
        in if with_bias then
             Inr (\<lparr>in_features = fin, out_features = fout, weight = w,
                   bias = Some (map (\<lambda>j. uniform_sample (- stdv) stdv (u1 j)) [0..<fout])\<rparr>,
                  (\<lambda>i. u1 (i + fout)))
           else
             Inr (\<lparr>in_features = fin, out_features = fout, weight = w, bias = None\<rparr>, u1))"

text \<open>What \<open>GCN.__init__\<close> establishes, and no optimiser step changes: the shapes of
  the parameters.\<close>

definition GCN_ok :: "'a GCN \<Rightarrow> bool" where
  "GCN_ok l \<longleftrightarrow>
     has_shape (weight l) (in_features l) (out_features l) \<and>
     (case bias l of None \<Rightarrow> True | Some b \<Rightarrow> length b = out_features l)"

definition GCN_forward ::
  "'a::{plus,times,zero} GCN \<Rightarrow> 'a tensor \<Rightarrow> 'a tensor \<Rightarrow> 'a tensor result" where
  "GCN_forward l input adj =
     bind_result (mm input (weight l)) (\<lambda>support.
     bind_result (spmm adj support) (\<lambda>output.
       (case bias l of
          Some b \<Rightarrow> tensor_add output b
        | None \<Rightarrow> Inr output)))"

subsection \<open>GCNencoder and GCNdecoder\<close>

record 'a GCNencoder =
  enc_dropout :: 'a
  enc_training :: bool
  enc_gc1 :: "'a GCN"
  enc_gc2 :: "'a GCN"

definition GCNencoder_forward ::
  "'a::{zero,one,plus,minus,times,inverse,ord} GCNencoder \<Rightarrow> 'a tensor \<Rightarrow> 'a tensor \<Rightarrow> rng \<Rightarrow>
     ('a tensor \<times> rng) result" where
  "GCNencoder_forward m x adj g =
     bind_result (GCN_forward (enc_gc1 m) x adj) (\<lambda>s1.
     bind_result (dropout (enc_dropout m) (enc_training m) (relu s1) g) (\<lambda>(x1, g1).
     bind_result (GCN_forward (enc_gc2 m) x1 adj) (\<lambda>s2.
       dropout (enc_dropout m) (enc_training m) (relu s2) g1)))"

record 'a GCNdecoder =
  dec_dropout :: 'a
  dec_training :: bool
  dec_gc1 :: "'a GCN"
  dec_gc2 :: "'a GCN"

definition GCNdecoder_forward ::
  "'a::{zero,one,plus,minus,times,inverse,ord} GCNdecoder \<Rightarrow> 'a tensor \<Rightarrow> 'a tensor \<Rightarrow> rng \<Rightarrow>
     ('a tensor \<times> rng) result" where
  "GCNdecoder_forward m x adj g =
     bind_result (GCN_forward (dec_gc1 m) x adj) (\<lambda>s1.
     bind_result (dropout (dec_dropout m) (dec_training m) (relu s1) g) (\<lambda>(x1, g1).
     bind_result (GCN_forward (dec_gc2 m) x1 adj) (\<lambda>s2.
       dropout (dec_dropout m) (dec_training m) (relu s2) g1)))"

text \<open>The constructors build \<open>GCN(nfeat, nhid)\<close> and \<open>GCN(nhid, nout)\<close>, both with a
  bias. A new module is in training mode.\<close>

definition GCNencoder_init ::
  "nat \<Rightarrow> nat \<Rightarrow> nat \<Rightarrow> real \<Rightarrow> uniform_source \<Rightarrow> (real GCNencoder \<times> uniform_source) result"
  where
  "GCNencoder_init nfeat nhid nout p u =
     bind_result (GCN_init nfeat nhid True u) (\<lambda>(gc1, u1).
     bind_result (GCN_init nhid nout True u1) (\<lambda>(gc2, u2).
       Inr (\<lparr>enc_dropout = p, enc_training = True, enc_gc1 = gc1, enc_gc2 = gc2\<rparr>, u2)))"

definition GCNdecoder_init ::
  "nat \<Rightarrow> nat \<Rightarrow> nat \<Rightarrow> real \<Rightarrow> uniform_source \<Rightarrow> (real GCNdecoder \<times> uniform_source) result"
  where
  "GCNdecoder_init nfeat nhid nout p u =
     bind_result (GCN_init nfeat nhid True u) (\<lambda>(gc1, u1).
     bind_result (GCN_init nhid nout True u1) (\<lambda>(gc2, u2).
       Inr (\<lparr>dec_dropout = p, dec_training = True, dec_gc1 = gc1, dec_gc2 = gc2\<rparr>, u2)))"

text \<open>What the two constructors establish for \<open>(nfeat, nhid, nout, dropout)\<close>: two
  layers \<open>nfeat \<rightarrow> nhid \<rightarrow> nout\<close> with well-shaped parameters. The dropout rate is
  stored as given; \<open>F.dropout\<close> accepts it when it lies in \<open>[0, 1]\<close>.\<close>

definition GCNencoder_ok :: "'a GCNencoder \<Rightarrow> nat \<Rightarrow> nat \<Rightarrow> nat \<Rightarrow> bool" where
  "GCNencoder_ok m nfeat nhid nout \<longleftrightarrow>
     GCN_ok (enc_gc1 m) \<and> in_features (enc_gc1 m) = nfeat \<and> out_features (enc_gc1 m) = nhid \<and>
     GCN_ok (enc_gc2 m) \<and> in_features (enc_gc2 m) = nhid \<and> out_features (enc_gc2 m) = nout"

definition GCNdecoder_ok :: "'a GCNdecoder \<Rightarrow> nat \<Rightarrow> nat \<Rightarrow> nat \<Rightarrow> bool" where
  "GCNdecoder_ok m nfeat nhid nout \<longleftrightarrow>
     GCN_ok (dec_gc1 m) \<and> in_features (dec_gc1 m) = nfeat \<and> out_features (dec_gc1 m) = nhid \<and>
     GCN_ok (dec_gc2 m) \<and> in_features (dec_gc2 m) = nhid \<and> out_features (dec_gc2 m) = nout"

subsection \<open>Discriminator\<close>

record 'a Discriminator =
  dis_dropout :: 'a
  dis_training :: bool
  dis_gc1 :: "'a GCN"
  dis_gc2 :: "'a GCN"
  dis_gc3 :: "'a GCN"

text \<open>\<open>Discriminator.__init__\<close> builds \<open>GCN(input_size, 32)\<close>, \<open>GCN(32, 16)\<close> and
  \<open>GCN(16, output_size)\<close>.\<close>

definition Discriminator_init ::
  "nat \<Rightarrow> nat \<Rightarrow> real \<Rightarrow> uniform_source \<Rightarrow> (real Discriminator \<times> uniform_source) result"
  where
  "Discriminator_init input_size output_size p u =
     bind_result (GCN_init input_size 32 True u) (\<lambda>(gc1, u1).
     bind_result (GCN_init 32 16 True u1) (\<lambda>(gc2, u2).
     bind_result (GCN_init 16 output_size True u2) (\<lambda>(gc3, u3).
       Inr (\<lparr>dis_dropout = p, dis_training = True,
             dis_gc1 = gc1, dis_gc2 = gc2, dis_gc3 = gc3\<rparr>, u3))))"

text \<open>What the constructor establishes:\<close>

definition Discriminator_ok :: "'a Discriminator \<Rightarrow> nat \<Rightarrow> nat \<Rightarrow> bool" where
  "Discriminator_ok m input_size output_size \<longleftrightarrow>
     GCN_ok (dis_gc1 m) \<and> in_features (dis_gc1 m) = input_size \<and> out_features (dis_gc1 m) = 32 \<and>
     GCN_ok (dis_gc2 m) \<and> in_features (dis_gc2 m) = 32 \<and> out_features (dis_gc2 m) = 16 \<and>
     GCN_ok (dis_gc3 m) \<and> in_features (dis_gc3 m) = 16 \<and> out_features (dis_gc3 m) = output_size"

text \<open>\<open>Discriminator.forward\<close> ends in \<open>F.sigmoid\<close> and \<open>F.softmax\<close>, which are given
  above for each kind of entry separately; the method is therefore written at each of
  the two types, with the same body.\<close>

definition Discriminator_forward ::
  "real Discriminator \<Rightarrow> real tensor \<Rightarrow> real tensor \<Rightarrow> rng \<Rightarrow>
     ((real list \<times> real list) \<times> rng) result" where
  "Discriminator_forward m x adj g =
     bind_result (GCN_forward (dis_gc1 m) x adj) (\<lambda>s1.
     bind_result (dropout (dis_dropout m) (dis_training m) (relu s1) g) (\<lambda>(x1, g1).
     bind_result (GCN_forward (dis_gc2 m) x1 adj) (\<lambda>s2.
     bind_result (dropout (dis_dropout m) (dis_training m) (relu s2) g1) (\<lambda>(x2, g2).
     bind_result (GCN_forward (dis_gc3 m) x2 adj) (\<lambda>a.
     bind_result (view a (nrows a)) (\<lambda>v.
       Inr ((F_sigmoid v, F_softmax v), g2)))))))"


subsection \<open>Teacher and Student\<close>

record 'a Teacher =
  tea_dropout :: 'a
  tea_encoder :: "'a GCNencoder"
  tea_decoder :: "'a GCNdecoder"

definition Teacher_init ::
  "nat \<Rightarrow> nat \<Rightarrow> nat \<Rightarrow> nat \<Rightarrow> nat \<Rightarrow> real \<Rightarrow> uniform_source \<Rightarrow>
     (real Teacher \<times> uniform_source) result" where
  "Teacher_init nfeat nhid1 nhid2 nhid3 nhid4 p u =
     bind_result (GCNencoder_init nfeat nhid1 nhid2 p u) (\<lambda>(enc, u1).
     bind_result (GCNdecoder_init nhid2 nhid3 nhid4 p u1) (\<lambda>(dec, u2).
       Inr (\<lparr>tea_dropout = p, tea_encoder = enc, tea_decoder = dec\<rparr>, u2)))"

definition Teacher_forward ::
  "'a::{zero,one,plus,minus,times,inverse,ord} Teacher \<Rightarrow> 'a tensor \<Rightarrow> 'a tensor \<Rightarrow> rng \<Rightarrow>
     (('a tensor \<times> 'a tensor) \<times> rng) result" where
  "Teacher_forward m x adj g =
     bind_result (GCNencoder_forward (tea_encoder m) x adj g) (\<lambda>(embedding, g1).
     bind_result (GCNdecoder_forward (tea_decoder m) embedding adj g1) (\<lambda>(super_resolved_matrix, g2).
       Inr ((embedding, super_resolved_matrix), g2)))"

record 'a Student =
  stu_dropout :: 'a
  stu_encoder :: "'a GCNencoder"
  stu_decoder :: "'a GCNdecoder"

definition Student_init ::
  "nat \<Rightarrow> nat \<Rightarrow> nat \<Rightarrow> nat \<Rightarrow> nat \<Rightarrow> real \<Rightarrow> uniform_source \<Rightarrow>
     (real Student \<times> uniform_source) result" where
  "Student_init nfeat nhid1 nhid2 nhid3 nhid4 p u =
     bind_result (GCNencoder_init nfeat nhid1 nhid2 p u) (\<lambda>(enc, u1).
     bind_result (GCNdecoder_init nhid2 nhid3 nhid4 p u1) (\<lambda>(dec, u2).
       Inr (\<lparr>stu_dropout = p, stu_encoder = enc, stu_decoder = dec\<rparr>, u2)))"

definition Student_forward ::
  "'a::{zero,one,plus,minus,times,inverse,ord} Student \<Rightarrow> 'a tensor \<Rightarrow> 'a tensor \<Rightarrow> rng \<Rightarrow>
     (('a tensor \<times> 'a tensor) \<times> rng) result" where
  "Student_forward m x adj g =
     bind_result (GCNencoder_forward (stu_encoder m) x adj g) (\<lambda>(embedding, g1).
     bind_result (GCNdecoder_forward (stu_decoder m) embedding adj g1) (\<lambda>(super_resolved_matrix, g2).
       Inr ((embedding, super_resolved_matrix), g2)))"

section \<open>Auxiliary notions for the statements\<close>

text \<open>Every entry of a float tensor is nonnegative or NaN; every entry is finite.\<close>

definition nonneg_or_nan :: "f32 tensor \<Rightarrow> bool" where
  "nonneg_or_nan t \<longleftrightarrow> list_all (list_all (\<lambda>v. v = NaN \<or> 0 \<le> v)) (rows t)"



text \<open>Concrete modules and inputs on which the theorems below are exercised: a generator
  that keeps every entry, a layer whose parameters all have the same value, a one-node
  graph and a graph with no nodes, on exact numbers and on floats.\<close>

definition all_keep :: rng where
  "all_keep = (\<lambda>i. True)"

definition const_layer :: "nat \<Rightarrow> nat \<Rightarrow> 'a \<Rightarrow> 'a \<Rightarrow> 'a GCN" where
  "const_layer fin fout w b =
     \<lparr>in_features = fin, out_features = fout,
      weight = \<lparr>nrows = fin, ncols = fout, rows = replicate fin (replicate fout w)\<rparr>,
      bias = Some (replicate fout b)\<rparr>"

definition one_node :: "'a \<Rightarrow> 'a tensor" where
  "one_node v = \<lparr>nrows = 1, ncols = 1, rows = [[v]]\<rparr>"


definition example_discriminator :: "nat \<Rightarrow> real Discriminator" where
  "example_discriminator output_size =
     \<lparr>dis_dropout = 1 / 2, dis_training = False,
      dis_gc1 = const_layer 1 32 1 0,
      dis_gc2 = const_layer 32 16 1 0,
      dis_gc3 = const_layer 16 output_size 1 0\<rparr>"

definition example_encoder :: "real GCNencoder" where
  "example_encoder =
     \<lparr>enc_dropout = 1 / 2, enc_training = False,
      enc_gc1 = const_layer 1 1 1 (- 3), enc_gc2 = const_layer 1 1 2 1\<rparr>"

definition example_decoder :: "real GCNdecoder" where
  "example_decoder =
     \<lparr>dec_dropout = 1 / 2, dec_training = False,
      dec_gc1 = const_layer 1 1 1 (- 3), dec_gc2 = const_layer 1 1 2 1\<rparr>"

definition example_teacher :: "real Teacher" where
  "example_teacher =
     \<lparr>tea_dropout = 1 / 2, tea_encoder = example_encoder, tea_decoder = example_decoder\<rparr>"

definition example_student :: "real Student" where
  "example_student =
     \<lparr>stu_dropout = 1 / 2, stu_encoder = example_encoder, stu_decoder = example_decoder\<rparr>"

definition unit_layer :: "nat \<Rightarrow> nat \<Rightarrow> f32 GCN" where
  "unit_layer fin fout = const_layer fin fout (Num 1) (Num 0)"

definition example_encoder_f32 :: "f32 GCNencoder" where
  "example_encoder_f32 =
     \<lparr>enc_dropout = Num (1 / 2), enc_training = False,
      enc_gc1 = unit_layer 1 1, enc_gc2 = unit_layer 1 1\<rparr>"

definition example_decoder_f32 :: "f32 GCNdecoder" where
  "example_decoder_f32 =
     \<lparr>dec_dropout = Num (1 / 2), dec_training = False,
      dec_gc1 = unit_layer 1 1, dec_gc2 = unit_layer 1 1\<rparr>"

definition example_teacher_f32 :: "f32 Teacher" where
  "example_teacher_f32 =
     \<lparr>tea_dropout = Num (1 / 2), tea_encoder = example_encoder_f32,
      tea_decoder = example_decoder_f32\<rparr>"

definition example_student_f32 :: "f32 Student" where
  "example_student_f32 =
     \<lparr>stu_dropout = Num (1 / 2), stu_encoder = example_encoder_f32,
      stu_decoder = example_decoder_f32\<rparr>"


text \<open>A layer with one weight, \<open>2\<^sup>-\<^sup>3\<^sup>0\<close>, and the bias 1.\<close>

definition tiny_weight_layer :: "f32 GCN" where
  "tiny_weight_layer =
     \<lparr>in_features = 1, out_features = 1,
      weight = one_node (Num (1 / 2 ^ 30)), bias = Some [Num 1]\<rparr>"

section \<open>Matrix products and broadcasting\<close>

lemma has_shape_row: "has_shape t n m \<Longrightarrow> i < n \<Longrightarrow> length (rows t ! i) = m"
  unfolding has_shape_def tensor_ok_def by (auto simp: list_all_length)


lemma mm_shape:
  assumes "has_shape a n k" "has_shape b k m"
  shows "\<exists>c. mm a b = Inr c \<and> has_shape c n m"
  using assms unfolding mm_def has_shape_def tensor_ok_def by (simp add: list_all_length)



lemma broadcast_op_same:
  assumes "has_shape t n m" "length b = m"
  shows "\<exists>c. broadcast_op f t b = Inr c \<and> has_shape c n m \<and>
           (\<forall>i<n. \<forall>j<m. entry c i j = f (entry t i j) (b ! j))"
proof -
  let ?c = "t\<lparr>rows := map (\<lambda>r. map2 f r b) (rows t)\<rparr>"
  from assms have dims: "nrows t = n" "ncols t = m" "length (rows t) = n"
    unfolding has_shape_def tensor_ok_def by simp_all
  have 1: "broadcast_op f t b = Inr ?c" unfolding broadcast_op_def using dims assms(2) by simp
  have 2: "has_shape ?c n m"
    using assms unfolding has_shape_def tensor_ok_def by (simp add: list_all_length)
  have 3: "entry ?c i j = f (entry t i j) (b ! j)" if "i < n" "j < m" for i j
    unfolding entry_def using that dims assms(2) has_shape_row[OF assms(1) that(1)] by simp
  from 1 2 3 show ?thesis by blast
qed

section \<open>The graph-convolution layer\<close>

lemma GCN_forward_shape:
  assumes "has_shape X N (in_features l)" "has_shape A N N" "GCN_ok l"
  shows "\<exists>Y. GCN_forward l X A = Inr Y \<and> has_shape Y N (out_features l)"
proof -
  from assms(3) have w: "has_shape (weight l) (in_features l) (out_features l)"
    unfolding GCN_ok_def by simp
  from mm_shape[OF assms(1) w] obtain S where
    S: "mm X (weight l) = Inr S" "has_shape S N (out_features l)" by blast
  from mm_shape[OF assms(2) S(2)] obtain P where
    P: "spmm A S = Inr P" "has_shape P N (out_features l)" unfolding spmm_def by blast
  show ?thesis
  proof (cases "bias l")
    case None
    then have "GCN_forward l X A = Inr P"
      unfolding GCN_forward_def bind_result_def using S(1) P(1) by simp
    with P(2) show ?thesis by simp
  next
    case (Some b)
    with assms(3) have lb: "length b = out_features l" unfolding GCN_ok_def by simp
    from broadcast_op_same[OF P(2) lb, of "(+)"] obtain Y where
      Y: "tensor_add P b = Inr Y" "has_shape Y N (out_features l)"
      unfolding tensor_add_def by blast
    have "GCN_forward l X A = Inr Y"
      unfolding GCN_forward_def bind_result_def using S(1) P(1) Y(1) Some by simp
    with Y(2) show ?thesis by simp
  qed
qed


lemma const_layer_ok: "GCN_ok (const_layer fin fout w b)"
  unfolding GCN_ok_def const_layer_def has_shape_def tensor_ok_def
  by (simp add: list_all_length)

lemma GCN_init_ok:
  assumes "GCN_init fin fout with_bias u = Inr (l, u')"
  shows "GCN_ok l \<and> in_features l = fin \<and> out_features l = fout \<and>
         (bias l \<noteq> None \<longleftrightarrow> with_bias)"
  using assms unfolding GCN_init_def GCN_ok_def has_shape_def tensor_ok_def
  by (auto simp: Let_def list_all_length split: if_splits)

lemma GCN_init_defined:
  "0 < fout \<Longrightarrow> \<exists>l u'. GCN_init fin fout with_bias u = Inr (l, u')"
  unfolding GCN_init_def by (simp add: Let_def)

lemma GCN_init_zero: "GCN_init fin 0 with_bias u = Inl ZeroDivisionError"
  unfolding GCN_init_def by simp



section \<open>Rounding\<close>

lemma round_even_int: "round_even (of_int n) = n"
  unfolding round_even_def by simp




lemma expo_eq:
  assumes "2 powi k \<le> \<bar>x\<bar>" "\<bar>x\<bar> < 2 powi (k + 1)" "- 126 \<le> k"
  shows "expo x = k"
proof -
  have pos: "0 < \<bar>x\<bar>" using assms(1) zero_less_power_int[of "2::real" k] by linarith
  have a: "(2::real) powr (real_of_int k) = 2 powi k" by (simp add: powr_real_of_int')
  have b: "(2::real) powr (real_of_int k + 1) = 2 powi (k + 1)"
    using powr_real_of_int'[of "2::real" "k + 1"] by simp
  have c: "2 powr real_of_int k \<le> \<bar>x\<bar>" "\<bar>x\<bar> < 2 powr (real_of_int k + 1)"
    unfolding a b using assms(1,2) by simp_all
  have "\<lfloor>log 2 \<bar>x\<bar>\<rfloor> = k"
    using floor_log_eq_powr_iff[of "\<bar>x\<bar>" 2 k] pos c by simp
  then show ?thesis unfolding expo_def using assms(3) by simp
qed

text \<open>A number with at most 24 significant bits in a normal binade is a float.\<close>

lemma round32_exact:
  assumes "2 powi k \<le> \<bar>x\<bar>" "\<bar>x\<bar> < 2 powi (k + 1)" "- 126 \<le> k" "k \<le> 127"
    and "x / 2 powi (k - 23) = of_int n"
  shows "round32 x = Num x"
proof -
  have e: "expo x = k" using assms(1,2,3) by (rule expo_eq)
  have u: "ulp x = 2 powi (k - 23)" unfolding ulp_def e by simp
  have r: "ulp x * of_int (round_even (x / ulp x)) = x"
    unfolding u assms(5) round_even_int using assms(5) by (simp add: field_simps)
  have "(2::real) powi (k + 1) \<le> 2 powi 128"
    using assms(4) by (intro power_int_increasing) simp_all
  then have "\<bar>x\<bar> < 2 ^ 128" using assms(2) by simp
  then show ?thesis unfolding round32_def Let_def r by simp
qed

lemma round32_0: "round32 0 = Num 0"
  unfolding round32_def Let_def by (simp add: round_even_def)

lemma round32_1: "round32 1 = Num 1"
  by (rule round32_exact[where k = 0 and n = "2 ^ 23"]) simp_all

lemma round32_small: "round32 (1 / 2 ^ 30) = Num (1 / 2 ^ 30)"
  by (rule round32_exact[where k = "- 30" and n = "2 ^ 23"]) simp_all



text \<open>\<open>1 + 2\<^sup>-\<^sup>3\<^sup>0\<close> lies less than half a unit in the last place above 1.\<close>

lemma round32_absorb: "round32 (1 + 1 / 2 ^ 30) = Num 1"
proof -
  have e: "expo (1 + 1 / 2 ^ 30) = 0" by (rule expo_eq) simp_all
  show ?thesis unfolding round32_def Let_def ulp_def e by (simp add: round_even_def)
qed








section \<open>Float arithmetic\<close>






lemma tiny_weight_layer_ok: "GCN_ok tiny_weight_layer"
  unfolding GCN_ok_def tiny_weight_layer_def has_shape_def tensor_ok_def one_node_def by simp

lemmas f32_ops = plus_f32_def minus_f32_def times_f32_def zero_f32_def one_f32_def
  uminus_f32_def divide_f32_def less_f32_def less_eq_f32_def

lemmas run_defs = GCN_forward_def mm_def spmm_def dot_def column_def
  tensor_add_def tensor_sub_def broadcast_op_def relu_def dropout_def bind_result_def
  const_layer_def one_node_def

lemma tiny_weight_layer_run:
  "GCN_forward tiny_weight_layer (one_node 1) (one_node 1) = Inr (one_node 1)"
  "GCN_forward (tiny_weight_layer\<lparr>bias := None\<rparr>) (one_node 1) (one_node 1) =
     Inr (one_node (Num (1 / 2 ^ 30)))"
  "tensor_sub (one_node 1) [1 :: f32] = Inr (one_node 0)"
  unfolding tiny_weight_layer_def
  by (simp_all add: run_defs f32_ops round32_small[simplified] round32_absorb[simplified]
      round32_0)

text \<open>
  Claim C5, as stated: the output of the layer without bias equals the output of the
  layer with bias minus \<open>b\<close>. It fails on floats, because the addition of the bias rounds:
  with the weight \<open>2\<^sup>-\<^sup>3\<^sup>0\<close>, the bias 1, and the one-node graph with feature 1 and
  adjacency 1, the layer with bias returns \<open>2\<^sup>-\<^sup>3\<^sup>0 + 1\<close> rounded, which is 1; minus the
  bias that is 0, while the layer without bias returns \<open>2\<^sup>-\<^sup>3\<^sup>0\<close>.
\<close>

theorem GCN_bias_subtract_counterexample:
  "GCN_ok tiny_weight_layer \<and> bias tiny_weight_layer = Some [1] \<and>
   GCN_forward tiny_weight_layer (one_node 1) (one_node 1) = Inr (one_node 1) \<and>
   tensor_sub (one_node 1) [1 :: f32] = Inr (one_node 0) \<and>
   GCN_forward (tiny_weight_layer\<lparr>bias := None\<rparr>) (one_node 1) (one_node 1) =
     Inr (one_node (Num (1 / 2 ^ 30))) \<and>
   one_node (0 :: f32) \<noteq> one_node (Num (1 / 2 ^ 30))"
proof -
  have b: "bias tiny_weight_layer = Some [1]"
    unfolding tiny_weight_layer_def by (simp add: one_f32_def)
  have n: "one_node (0 :: f32) \<noteq> one_node (Num (1 / 2 ^ 30))"
    unfolding one_node_def by (simp add: zero_f32_def)
  from tiny_weight_layer_ok b tiny_weight_layer_run n show ?thesis by simp
qed

text \<open>
  Claim C5, amended: two layers with the same weight matrix, one with a bias vector \<open>b\<close>
  and one without. On every input, the layer with bias returns what the layer without
  bias returns, plus \<open>b\<close> broadcast over the rows (and raises whenever the other
  raises): the bias is added after the propagation step and takes no part in it. For
  well-shaped inputs both return, and entry \<open>(i, j)\<close> of the first result is entry
  \<open>(i, j)\<close> of the second plus \<open>b\<^sub>j\<close>. This holds for every arithmetic of the entries,
  float32 included.
\<close>

theorem GCN_bias_added:
  assumes "bias l1 = Some b" and "weight l2 = weight l1" and "bias l2 = None"
  shows "GCN_forward l1 X A = bind_result (GCN_forward l2 X A) (\<lambda>Y. tensor_add Y b) \<and>
    (has_shape X N (in_features l1) \<and> has_shape A N N \<and> GCN_ok l1 \<longrightarrow>
       (\<exists>Y1 Y2. GCN_forward l1 X A = Inr Y1 \<and> GCN_forward l2 X A = Inr Y2 \<and>
          has_shape Y1 N (out_features l1) \<and> has_shape Y2 N (out_features l1) \<and>
          (\<forall>i<N. \<forall>j<out_features l1. entry Y1 i j = entry Y2 i j + b ! j)))"
proof
  show "GCN_forward l1 X A = bind_result (GCN_forward l2 X A) (\<lambda>Y. tensor_add Y b)"
    unfolding GCN_forward_def bind_result_def using assms
    by (simp split: sum.splits)
next
  show "has_shape X N (in_features l1) \<and> has_shape A N N \<and> GCN_ok l1 \<longrightarrow>
       (\<exists>Y1 Y2. GCN_forward l1 X A = Inr Y1 \<and> GCN_forward l2 X A = Inr Y2 \<and>
          has_shape Y1 N (out_features l1) \<and> has_shape Y2 N (out_features l1) \<and>
          (\<forall>i<N. \<forall>j<out_features l1. entry Y1 i j = entry Y2 i j + b ! j))"
  proof
    assume h: "has_shape X N (in_features l1) \<and> has_shape A N N \<and> GCN_ok l1"
    then have w: "has_shape (weight l1) (in_features l1) (out_features l1)"
      and lb: "length b = out_features l1"
      unfolding GCN_ok_def using assms(1) by simp_all
    from h mm_shape[OF _ w] obtain S where
      S: "mm X (weight l1) = Inr S" "has_shape S N (out_features l1)" by blast
    from h mm_shape[OF _ S(2)] obtain P where
      P: "spmm A S = Inr P" "has_shape P N (out_features l1)" unfolding spmm_def by blast
    from broadcast_op_same[OF P(2) lb, of "(+)"] obtain Y where
      Y: "tensor_add P b = Inr Y" "has_shape Y N (out_features l1)"
         "\<forall>i<N. \<forall>j<out_features l1. entry Y i j = entry P i j + b ! j"
      unfolding tensor_add_def by blast
    have 1: "GCN_forward l1 X A = Inr Y"
      unfolding GCN_forward_def bind_result_def using S(1) P(1) Y(1) assms(1) by simp
    have 2: "GCN_forward l2 X A = Inr P"
      unfolding GCN_forward_def bind_result_def using S(1) P(1) assms(2,3) by simp
    from 1 2 Y(2,3) P(2) show "\<exists>Y1 Y2. GCN_forward l1 X A = Inr Y1 \<and>
          GCN_forward l2 X A = Inr Y2 \<and>
          has_shape Y1 N (out_features l1) \<and> has_shape Y2 N (out_features l1) \<and>
          (\<forall>i<N. \<forall>j<out_features l1. entry Y1 i j = entry Y2 i j + b ! j)"
      by blast
  qed
qed

theorem GCN_bias_added_witness:
  "bias tiny_weight_layer = Some [1] \<and>
   weight (tiny_weight_layer\<lparr>bias := None\<rparr>) = weight tiny_weight_layer \<and>
   bias (tiny_weight_layer\<lparr>bias := None\<rparr>) = None \<and>
   has_shape (one_node (1 :: f32)) 1 (in_features tiny_weight_layer) \<and>
   has_shape (one_node (1 :: f32)) 1 1 \<and> GCN_ok tiny_weight_layer \<and>
   GCN_forward tiny_weight_layer (one_node 1) (one_node 1) = Inr (one_node 1) \<and>
   GCN_forward (tiny_weight_layer\<lparr>bias := None\<rparr>) (one_node 1) (one_node 1) =
     Inr (one_node (Num (1 / 2 ^ 30))) \<and>
   tensor_add (one_node (Num (1 / 2 ^ 30))) [1] = Inr (one_node 1)"
proof -
  have b: "bias tiny_weight_layer = Some [1]"
    unfolding tiny_weight_layer_def by (simp add: one_f32_def)
  have w: "weight (tiny_weight_layer\<lparr>bias := None\<rparr>) = weight tiny_weight_layer" by simp
  have n: "bias (tiny_weight_layer\<lparr>bias := None\<rparr>) = None" by simp
  have x: "has_shape (one_node (1 :: f32)) 1 (in_features tiny_weight_layer)"
    and a: "has_shape (one_node (1 :: f32)) 1 1"
    unfolding tiny_weight_layer_def has_shape_def tensor_ok_def one_node_def by simp_all
  note t = GCN_bias_added[OF b w n, of "one_node 1" "one_node 1" 1]
  from t have "bind_result (GCN_forward (tiny_weight_layer\<lparr>bias := None\<rparr>)
        (one_node 1) (one_node 1)) (\<lambda>Y. tensor_add Y [1]) = Inr (one_node 1)"
    using tiny_weight_layer_run(1) by simp
  then have "tensor_add (one_node (Num (1 / 2 ^ 30))) [1] = Inr (one_node 1)"
    unfolding tiny_weight_layer_run(2) bind_result_def by simp
  with b w n x a tiny_weight_layer_ok tiny_weight_layer_run(1,2) show ?thesis by blast
qed




section \<open>Activation and dropout\<close>

lemma relu_shape: "has_shape x n m \<Longrightarrow> has_shape (relu x) n m"
  unfolding has_shape_def tensor_ok_def relu_def by (simp add: list_all_length)

lemma relu_nonneg_or_nan: "nonneg_or_nan (relu x)"
proof -
  have "(if v < 0 then 0 else v) = NaN \<or> 0 \<le> (if v < 0 then 0 else v)" for v :: f32
    by (cases v) (simp_all add: f32_ops)
  then show ?thesis unfolding nonneg_or_nan_def relu_def by (simp add: list_all_length)
qed

lemma dropout_eval:
  "dropout p False x g = (if p < 0 \<or> p > 1 then Inl ValueError else Inr (x, g))"
  unfolding dropout_def by simp


lemma dropout_result:
  fixes p :: real
  assumes "0 \<le> p" "p \<le> 1" "has_shape x n m"
  shows "\<exists>y g'. dropout p tr x g = Inr (y, g') \<and> has_shape y n m \<and>
           (\<not> tr \<longrightarrow> y = x \<and> g' = g)"
  using assms unfolding dropout_def has_shape_def tensor_ok_def
  by (auto simp: list_all_length)

section \<open>Encoder and decoder\<close>

lemma GCNencoder_stages:
  fixes X A :: "real tensor"
  assumes "has_shape X N nfeat" "has_shape A N N" "GCNencoder_ok m nfeat nhid nout"
    and "0 \<le> enc_dropout m" "enc_dropout m \<le> 1"
  shows "\<exists>s1 x1 g1 s2 y g'.
     GCN_forward (enc_gc1 m) X A = Inr s1 \<and> has_shape s1 N nhid \<and>
     dropout (enc_dropout m) (enc_training m) (relu s1) g = Inr (x1, g1) \<and>
     GCN_forward (enc_gc2 m) x1 A = Inr s2 \<and> has_shape s2 N nout \<and>
     dropout (enc_dropout m) (enc_training m) (relu s2) g1 = Inr (y, g') \<and>
     GCNencoder_forward m X A g = Inr (y, g') \<and> has_shape y N nout \<and>
     (\<not> enc_training m \<longrightarrow> x1 = relu s1 \<and> y = relu s2 \<and> g' = g)"
proof -
  from assms(3) have ok: "GCN_ok (enc_gc1 m)" "in_features (enc_gc1 m) = nfeat"
      "out_features (enc_gc1 m) = nhid" "GCN_ok (enc_gc2 m)" "in_features (enc_gc2 m) = nhid"
      "out_features (enc_gc2 m) = nout"
    unfolding GCNencoder_ok_def by simp_all
  from GCN_forward_shape[of X N "enc_gc1 m" A] assms(1,2) ok obtain s1 where
    s1: "GCN_forward (enc_gc1 m) X A = Inr s1" "has_shape s1 N nhid" by auto
  from dropout_result[OF assms(4,5) relu_shape[OF s1(2)], of "enc_training m" g]
  obtain x1 g1 where
    x1: "dropout (enc_dropout m) (enc_training m) (relu s1) g = Inr (x1, g1)"
        "has_shape x1 N nhid" "\<not> enc_training m \<longrightarrow> x1 = relu s1 \<and> g1 = g"
    by blast
  from GCN_forward_shape[of x1 N "enc_gc2 m" A] x1(2) assms(2) ok obtain s2 where
    s2: "GCN_forward (enc_gc2 m) x1 A = Inr s2" "has_shape s2 N nout" by auto
  from dropout_result[OF assms(4,5) relu_shape[OF s2(2)], of "enc_training m" g1]
  obtain y g' where
    y: "dropout (enc_dropout m) (enc_training m) (relu s2) g1 = Inr (y, g')"
       "has_shape y N nout" "\<not> enc_training m \<longrightarrow> y = relu s2 \<and> g' = g1"
    by blast
  have "GCNencoder_forward m X A g = Inr (y, g')"
    unfolding GCNencoder_forward_def bind_result_def using s1(1) x1(1) s2(1) y(1) by simp
  with s1 x1 s2 y show ?thesis by blast
qed

lemma GCNdecoder_as_encoder:
  "GCNdecoder_forward d x adj g =
     GCNencoder_forward
       \<lparr>enc_dropout = dec_dropout d, enc_training = dec_training d,
        enc_gc1 = dec_gc1 d, enc_gc2 = dec_gc2 d\<rparr> x adj g"
  unfolding GCNdecoder_forward_def GCNencoder_forward_def by simp

lemma GCNdecoder_stages:
  fixes X A :: "real tensor"
  assumes "has_shape X N nfeat" "has_shape A N N" "GCNdecoder_ok m nfeat nhid nout"
    and "0 \<le> dec_dropout m" "dec_dropout m \<le> 1"
  shows "\<exists>s1 x1 g1 s2 y g'.
     GCN_forward (dec_gc1 m) X A = Inr s1 \<and> has_shape s1 N nhid \<and>
     dropout (dec_dropout m) (dec_training m) (relu s1) g = Inr (x1, g1) \<and>
     GCN_forward (dec_gc2 m) x1 A = Inr s2 \<and> has_shape s2 N nout \<and>
     dropout (dec_dropout m) (dec_training m) (relu s2) g1 = Inr (y, g') \<and>
     GCNdecoder_forward m X A g = Inr (y, g') \<and> has_shape y N nout \<and>
     (\<not> dec_training m \<longrightarrow> x1 = relu s1 \<and> y = relu s2 \<and> g' = g)"
proof -
  let ?e = "\<lparr>enc_dropout = dec_dropout m, enc_training = dec_training m,
             enc_gc1 = dec_gc1 m, enc_gc2 = dec_gc2 m\<rparr>"
  have ok: "GCNencoder_ok ?e nfeat nhid nout"
    using assms(3) unfolding GCNencoder_ok_def GCNdecoder_ok_def by simp
  have p: "0 \<le> enc_dropout ?e" "enc_dropout ?e \<le> 1" using assms(4,5) by simp_all
  from GCNencoder_stages[OF assms(1,2) ok p, of g] show ?thesis
    unfolding GCNdecoder_as_encoder by simp
qed

text \<open>Outside training mode the generator is not used, and the result is the
  activation of the second layer's output.\<close>

lemma GCNencoder_eval:
  assumes "\<not> enc_training m" "GCNencoder_forward m x adj g = Inr (y, g')"
  shows "g' = g \<and> (\<exists>s2. y = relu s2) \<and> GCNencoder_forward m x adj h = Inr (y, h)"
  using assms unfolding GCNencoder_forward_def bind_result_def
  by (auto simp: dropout_eval split: sum.splits if_splits)

lemma GCNencoder_eval_fail:
  assumes "\<not> enc_training m" "GCNencoder_forward m x adj g = Inl e"
  shows "GCNencoder_forward m x adj h = Inl e"
  using assms unfolding GCNencoder_forward_def bind_result_def
  by (auto simp: dropout_eval split: sum.splits if_splits)

lemma GCNdecoder_eval:
  assumes "\<not> dec_training m" "GCNdecoder_forward m x adj g = Inr (y, g')"
  shows "g' = g \<and> (\<exists>s2. y = relu s2) \<and> GCNdecoder_forward m x adj h = Inr (y, h)"
  using assms GCNencoder_eval[of "\<lparr>enc_dropout = dec_dropout m, enc_training = dec_training m,
             enc_gc1 = dec_gc1 m, enc_gc2 = dec_gc2 m\<rparr>" x adj g y g' h]
  unfolding GCNdecoder_as_encoder by simp

lemma GCNdecoder_eval_fail:
  assumes "\<not> dec_training m" "GCNdecoder_forward m x adj g = Inl e"
  shows "GCNdecoder_forward m x adj h = Inl e"
  using assms GCNencoder_eval_fail[of "\<lparr>enc_dropout = dec_dropout m,
             enc_training = dec_training m,
             enc_gc1 = dec_gc1 m, enc_gc2 = dec_gc2 m\<rparr>" x adj g e h]
  unfolding GCNdecoder_as_encoder by simp

lemma example_encoder_run:
  "GCNencoder_forward example_encoder (one_node 4) (one_node 1) all_keep =
     Inr (one_node 3, all_keep)"
  unfolding GCNencoder_forward_def example_encoder_def by (simp add: run_defs)

lemma example_decoder_run:
  "GCNdecoder_forward example_decoder (one_node 3) (one_node 1) all_keep =
     Inr (one_node 1, all_keep)"
  unfolding GCNdecoder_forward_def example_decoder_def by (simp add: run_defs)

lemma one_node_shape: "has_shape (one_node v) 1 1"
  unfolding has_shape_def tensor_ok_def one_node_def by simp

lemma GCNencoder_init_ok:
  assumes "GCNencoder_init nfeat nhid nout p u = Inr (m, u')"
  shows "GCNencoder_ok m nfeat nhid nout \<and> enc_dropout m = p \<and> enc_training m"
proof -
  from assms obtain gc1 u1 gc2 where
    1: "GCN_init nfeat nhid True u = Inr (gc1, u1)" and
    2: "GCN_init nhid nout True u1 = Inr (gc2, u')" and
    m: "m = \<lparr>enc_dropout = p, enc_training = True, enc_gc1 = gc1, enc_gc2 = gc2\<rparr>"
    unfolding GCNencoder_init_def bind_result_def by (auto split: sum.splits)
  from GCN_init_ok[OF 1] GCN_init_ok[OF 2] m show ?thesis
    unfolding GCNencoder_ok_def by simp
qed

lemma GCNdecoder_init_ok:
  assumes "GCNdecoder_init nfeat nhid nout p u = Inr (m, u')"
  shows "GCNdecoder_ok m nfeat nhid nout \<and> dec_dropout m = p \<and> dec_training m"
proof -
  from assms obtain gc1 u1 gc2 where
    1: "GCN_init nfeat nhid True u = Inr (gc1, u1)" and
    2: "GCN_init nhid nout True u1 = Inr (gc2, u')" and
    m: "m = \<lparr>dec_dropout = p, dec_training = True, dec_gc1 = gc1, dec_gc2 = gc2\<rparr>"
    unfolding GCNdecoder_init_def bind_result_def by (auto split: sum.splits)
  from GCN_init_ok[OF 1] GCN_init_ok[OF 2] m show ?thesis
    unfolding GCNdecoder_ok_def by simp
qed

lemma example_encoder_ok: "GCNencoder_ok example_encoder 1 1 1"
  unfolding GCNencoder_ok_def example_encoder_def
  by (simp add: const_layer_ok) (simp add: const_layer_def)

lemma example_decoder_ok: "GCNdecoder_ok example_decoder 1 1 1"
  unfolding GCNdecoder_ok_def example_decoder_def
  by (simp add: const_layer_ok) (simp add: const_layer_def)

text \<open>
  Claim C3. For \<open>X\<close> of shape \<open>(N, nfeat)\<close> and \<open>A\<close> of shape \<open>(N, N)\<close>, and a dropout rate
  the library accepts, \<open>GCNencoder.forward\<close> returns the result of the pipeline: layer 1,
  rectified-linear activation, dropout, layer 2, rectified-linear activation, dropout.
  Dropout is the identity outside training mode. The result has shape \<open>(N, nout)\<close>, for
  every \<open>N\<close>. The same holds of \<open>GCNdecoder.forward\<close>.
\<close>

theorem GCNencoder_decoder_pipeline:
  fixes X A :: "real tensor"
  shows
  "(has_shape X N nfeat \<and> has_shape A N N \<and> GCNencoder_ok e nfeat nhid nout \<and>
    0 \<le> enc_dropout e \<and> enc_dropout e \<le> 1 \<longrightarrow>
    (\<exists>s1 x1 g1 s2 y g'.
       GCN_forward (enc_gc1 e) X A = Inr s1 \<and>
       dropout (enc_dropout e) (enc_training e) (relu s1) g = Inr (x1, g1) \<and>
       GCN_forward (enc_gc2 e) x1 A = Inr s2 \<and>
       dropout (enc_dropout e) (enc_training e) (relu s2) g1 = Inr (y, g') \<and>
       GCNencoder_forward e X A g = Inr (y, g') \<and> has_shape y N nout \<and>
       (\<not> enc_training e \<longrightarrow> x1 = relu s1 \<and> y = relu s2 \<and> g' = g))) \<and>
   (has_shape X N nfeat \<and> has_shape A N N \<and> GCNdecoder_ok d nfeat nhid nout \<and>
    0 \<le> dec_dropout d \<and> dec_dropout d \<le> 1 \<longrightarrow>
    (\<exists>s1 x1 g1 s2 y g'.
       GCN_forward (dec_gc1 d) X A = Inr s1 \<and>
       dropout (dec_dropout d) (dec_training d) (relu s1) g = Inr (x1, g1) \<and>
       GCN_forward (dec_gc2 d) x1 A = Inr s2 \<and>
       dropout (dec_dropout d) (dec_training d) (relu s2) g1 = Inr (y, g') \<and>
       GCNdecoder_forward d X A g = Inr (y, g') \<and> has_shape y N nout \<and>
       (\<not> dec_training d \<longrightarrow> x1 = relu s1 \<and> y = relu s2 \<and> g' = g)))"
proof (intro conjI impI)
  assume h: "has_shape X N nfeat \<and> has_shape A N N \<and> GCNencoder_ok e nfeat nhid nout \<and>
    0 \<le> enc_dropout e \<and> enc_dropout e \<le> 1"
  from GCNencoder_stages[of X N nfeat A e nhid nout g] h
  show "\<exists>s1 x1 g1 s2 y g'.
       GCN_forward (enc_gc1 e) X A = Inr s1 \<and>
       dropout (enc_dropout e) (enc_training e) (relu s1) g = Inr (x1, g1) \<and>
       GCN_forward (enc_gc2 e) x1 A = Inr s2 \<and>
       dropout (enc_dropout e) (enc_training e) (relu s2) g1 = Inr (y, g') \<and>
       GCNencoder_forward e X A g = Inr (y, g') \<and> has_shape y N nout \<and>
       (\<not> enc_training e \<longrightarrow> x1 = relu s1 \<and> y = relu s2 \<and> g' = g)"
    by blast
next
  assume h: "has_shape X N nfeat \<and> has_shape A N N \<and> GCNdecoder_ok d nfeat nhid nout \<and>
    0 \<le> dec_dropout d \<and> dec_dropout d \<le> 1"
  from GCNdecoder_stages[of X N nfeat A d nhid nout g] h
  show "\<exists>s1 x1 g1 s2 y g'.
       GCN_forward (dec_gc1 d) X A = Inr s1 \<and>
       dropout (dec_dropout d) (dec_training d) (relu s1) g = Inr (x1, g1) \<and>
       GCN_forward (dec_gc2 d) x1 A = Inr s2 \<and>
       dropout (dec_dropout d) (dec_training d) (relu s2) g1 = Inr (y, g') \<and>
       GCNdecoder_forward d X A g = Inr (y, g') \<and> has_shape y N nout \<and>
       (\<not> dec_training d \<longrightarrow> x1 = relu s1 \<and> y = relu s2 \<and> g' = g)"
    by blast
qed

theorem GCNencoder_decoder_pipeline_witness:
  "has_shape (one_node (4 :: real)) 1 1 \<and> has_shape (one_node (1 :: real)) 1 1 \<and>
   GCNencoder_ok example_encoder 1 1 1 \<and> GCNdecoder_ok example_decoder 1 1 1 \<and>
   0 \<le> enc_dropout example_encoder \<and> enc_dropout example_encoder \<le> 1 \<and>
   0 \<le> dec_dropout example_decoder \<and> dec_dropout example_decoder \<le> 1 \<and>
   (\<exists>y g'. GCNencoder_forward example_encoder (one_node 4) (one_node 1) all_keep = Inr (y, g') \<and>
      has_shape y 1 1) \<and>
   (\<exists>y g'. GCNdecoder_forward example_decoder (one_node 4) (one_node 1) all_keep = Inr (y, g') \<and>
      has_shape y 1 1)"
proof -
  note t = GCNencoder_decoder_pipeline[where X = "one_node 4" and A = "one_node 1" and N = 1
      and nfeat = 1 and nhid = 1 and nout = 1 and e = example_encoder and d = example_decoder
      and g = all_keep]
  have x: "has_shape (one_node (4 :: real)) 1 1" and a: "has_shape (one_node (1 :: real)) 1 1"
    by (rule one_node_shape)+
  have pe: "0 \<le> enc_dropout example_encoder" "enc_dropout example_encoder \<le> 1"
    unfolding example_encoder_def by simp_all
  have pd: "0 \<le> dec_dropout example_decoder" "dec_dropout example_decoder \<le> 1"
    unfolding example_decoder_def by simp_all
  from t x a example_encoder_ok example_decoder_ok pe pd show ?thesis by blast
qed

text \<open>
  Claim C8. Encoder and decoder are the same network: a \<open>GCNencoder\<close> and a
  \<open>GCNdecoder\<close> with the same dropout rate, the same training flag and the same two
  layers (whatever their sizes and parameters) return equal results on every input
  \<open>(X, A)\<close>; in training mode, for equal states of the random generator.
\<close>

theorem GCNencoder_decoder_equal:
  assumes "dec_dropout d = enc_dropout e" and "dec_training d = enc_training e"
    and "dec_gc1 d = enc_gc1 e" and "dec_gc2 d = enc_gc2 e"
  shows "GCNdecoder_forward d x adj g = GCNencoder_forward e x adj g"
  unfolding GCNdecoder_forward_def GCNencoder_forward_def using assms by simp

theorem GCNencoder_decoder_equal_witness:
  "dec_dropout example_decoder = enc_dropout example_encoder \<and>
   dec_training example_decoder = enc_training example_encoder \<and>
   dec_gc1 example_decoder = enc_gc1 example_encoder \<and>
   dec_gc2 example_decoder = enc_gc2 example_encoder \<and>
   GCNdecoder_forward example_decoder (one_node 4) (one_node 1) all_keep =
     GCNencoder_forward example_encoder (one_node 4) (one_node 1) all_keep \<and>
   GCNencoder_forward example_encoder (one_node 4) (one_node 1) all_keep =
     Inr (one_node 3, all_keep)"
proof -
  have 1: "dec_dropout example_decoder = enc_dropout example_encoder"
    and 2: "dec_training example_decoder = enc_training example_encoder"
    and 3: "dec_gc1 example_decoder = enc_gc1 example_encoder"
    and 4: "dec_gc2 example_decoder = enc_gc2 example_encoder"
    unfolding example_decoder_def example_encoder_def by simp_all
  from GCNencoder_decoder_equal[OF 1 2 3 4] 1 2 3 4 example_encoder_run
  show ?thesis by blast
qed

lemma example_eval_mode_f32:
  "\<not> enc_training example_encoder_f32" "\<not> dec_training example_decoder_f32"
  "\<not> enc_training (tea_encoder example_teacher_f32)"
  "\<not> dec_training (tea_decoder example_teacher_f32)"
  "\<not> enc_training (stu_encoder example_student_f32)"
  "\<not> dec_training (stu_decoder example_student_f32)"
  unfolding example_teacher_f32_def example_student_f32_def example_encoder_f32_def
    example_decoder_f32_def
  by simp_all

lemma example_encoder_f32_run:
  "GCNencoder_forward example_encoder_f32 (one_node 1) (one_node 1) all_keep =
     Inr (one_node 1, all_keep)"
  "GCNencoder_forward example_encoder_f32 (one_node NaN) (one_node 1) all_keep =
     Inr (one_node NaN, all_keep)"
  unfolding GCNencoder_forward_def example_encoder_f32_def unit_layer_def
  by (simp_all add: run_defs f32_ops round32_0 round32_1)

lemma example_decoder_f32_run:
  "GCNdecoder_forward example_decoder_f32 (one_node 1) (one_node 1) all_keep =
     Inr (one_node 1, all_keep)"
  unfolding GCNdecoder_forward_def example_decoder_f32_def unit_layer_def
  by (simp_all add: run_defs f32_ops round32_0 round32_1)

lemma example_teacher_f32_run:
  "Teacher_forward example_teacher_f32 (one_node 1) (one_node 1) all_keep =
     Inr ((one_node 1, one_node 1), all_keep)"
  unfolding Teacher_forward_def example_teacher_f32_def
  by (simp add: example_encoder_f32_run example_decoder_f32_run bind_result_def)

lemma example_student_f32_run:
  "Student_forward example_student_f32 (one_node 1) (one_node 1) all_keep =
     Inr ((one_node 1, one_node 1), all_keep)"
  unfolding Student_forward_def example_student_f32_def
  by (simp add: example_encoder_f32_run example_decoder_f32_run bind_result_def)

text \<open>
  Claim C10, as stated: outside training mode every entry returned by
  \<open>GCNencoder.forward\<close> is nonnegative, for every \<open>(X, A)\<close>. It fails on floats: the
  activation keeps NaN, and NaN is not nonnegative. For the one-node graph with the
  feature NaN the encoder returns NaN.
\<close>

theorem forward_nan_counterexample:
  "\<not> enc_training example_encoder_f32 \<and>
   GCNencoder_forward example_encoder_f32 (one_node NaN) (one_node 1) all_keep =
     Inr (one_node NaN, all_keep) \<and>
   entry (one_node NaN) 0 0 = NaN \<and> \<not> 0 \<le> NaN"
proof -
  have e: "entry (one_node NaN) 0 0 = NaN" unfolding entry_def one_node_def by simp
  have n: "\<not> 0 \<le> NaN" by (simp add: f32_ops)
  from example_eval_mode_f32(1) example_encoder_f32_run(2) e n show ?thesis by simp
qed

text \<open>
  Claim C10, amended: outside training mode, every entry of the matrix returned by
  \<open>GCNencoder.forward\<close> and by \<open>GCNdecoder.forward\<close> is nonnegative or NaN (no entry is
  negative), and so is every entry of both components returned by \<open>Teacher.forward\<close> and
  \<open>Student.forward\<close>: the last step that changes a value is a rectified-linear
  activation, which keeps NaN.
\<close>

theorem forward_nonneg_or_nan:
  "(\<not> enc_training e \<and> GCNencoder_forward e x adj g = Inr (y, g') \<longrightarrow> nonneg_or_nan y) \<and>
   (\<not> dec_training d \<and> GCNdecoder_forward d x adj g = Inr (y, g') \<longrightarrow> nonneg_or_nan y) \<and>
   (\<not> enc_training (tea_encoder t) \<and> \<not> dec_training (tea_decoder t) \<and>
    Teacher_forward t x adj g = Inr ((emb, out), g') \<longrightarrow>
      nonneg_or_nan emb \<and> nonneg_or_nan out) \<and>
   (\<not> enc_training (stu_encoder s) \<and> \<not> dec_training (stu_decoder s) \<and>
    Student_forward s x adj g = Inr ((emb, out), g') \<longrightarrow>
      nonneg_or_nan emb \<and> nonneg_or_nan out)"
proof (intro conjI impI)
  assume "\<not> enc_training e \<and> GCNencoder_forward e x adj g = Inr (y, g')"
  then show "nonneg_or_nan y" using GCNencoder_eval relu_nonneg_or_nan by blast
next
  assume "\<not> dec_training d \<and> GCNdecoder_forward d x adj g = Inr (y, g')"
  then show "nonneg_or_nan y" using GCNdecoder_eval relu_nonneg_or_nan by blast
next
  assume h: "\<not> enc_training (tea_encoder t) \<and> \<not> dec_training (tea_decoder t) \<and>
    Teacher_forward t x adj g = Inr ((emb, out), g')"
  then obtain g1 where
    enc: "GCNencoder_forward (tea_encoder t) x adj g = Inr (emb, g1)" and
    dec: "GCNdecoder_forward (tea_decoder t) emb adj g1 = Inr (out, g')"
    unfolding Teacher_forward_def bind_result_def by (auto split: sum.splits)
  from h enc show "nonneg_or_nan emb" using GCNencoder_eval relu_nonneg_or_nan by blast
  from h dec show "nonneg_or_nan out" using GCNdecoder_eval relu_nonneg_or_nan by blast
next
  assume h: "\<not> enc_training (stu_encoder s) \<and> \<not> dec_training (stu_decoder s) \<and>
    Student_forward s x adj g = Inr ((emb, out), g')"
  then obtain g1 where
    enc: "GCNencoder_forward (stu_encoder s) x adj g = Inr (emb, g1)" and
    dec: "GCNdecoder_forward (stu_decoder s) emb adj g1 = Inr (out, g')"
    unfolding Student_forward_def bind_result_def by (auto split: sum.splits)
  from h enc show "nonneg_or_nan emb" using GCNencoder_eval relu_nonneg_or_nan by blast
  from h dec show "nonneg_or_nan out" using GCNdecoder_eval relu_nonneg_or_nan by blast
qed

theorem forward_nonneg_or_nan_witness:
  "\<not> enc_training example_encoder_f32 \<and>
   GCNencoder_forward example_encoder_f32 (one_node 1) (one_node 1) all_keep =
     Inr (one_node 1, all_keep) \<and>
   \<not> dec_training example_decoder_f32 \<and>
   GCNdecoder_forward example_decoder_f32 (one_node 1) (one_node 1) all_keep =
     Inr (one_node 1, all_keep) \<and>
   \<not> enc_training (tea_encoder example_teacher_f32) \<and>
   \<not> dec_training (tea_decoder example_teacher_f32) \<and>
   Teacher_forward example_teacher_f32 (one_node 1) (one_node 1) all_keep =
     Inr ((one_node 1, one_node 1), all_keep) \<and>
   \<not> enc_training (stu_encoder example_student_f32) \<and>
   \<not> dec_training (stu_decoder example_student_f32) \<and>
   Student_forward example_student_f32 (one_node 1) (one_node 1) all_keep =
     Inr ((one_node 1, one_node 1), all_keep) \<and>
   nonneg_or_nan (one_node 1)"
proof -
  note t = forward_nonneg_or_nan[where e = example_encoder_f32 and d = example_decoder_f32
      and t = example_teacher_f32 and s = example_student_f32
      and x = "one_node 1" and adj = "one_node 1" and g = all_keep and g' = all_keep
      and y = "one_node 1" and emb = "one_node 1" and out = "one_node 1"]
  from t example_eval_mode_f32 example_encoder_f32_run(1) example_decoder_f32_run
    example_teacher_f32_run example_student_f32_run
  show ?thesis by blast
qed

section \<open>Teacher and student\<close>

lemma example_teacher_run:
  "Teacher_forward example_teacher (one_node 4) (one_node 1) all_keep =
     Inr ((one_node 3, one_node 1), all_keep)"
  unfolding Teacher_forward_def example_teacher_def
  by (simp add: example_encoder_run example_decoder_run bind_result_def)

lemma example_eval_mode:
  "\<not> enc_training (tea_encoder example_teacher)" "\<not> dec_training (tea_decoder example_teacher)"
  unfolding example_teacher_def example_encoder_def example_decoder_def
  by simp_all

lemma Teacher_init_ok:
  assumes "Teacher_init nfeat nhid1 nhid2 nhid3 nhid4 p u = Inr (m, u')"
  shows "GCNencoder_ok (tea_encoder m) nfeat nhid1 nhid2 \<and>
         GCNdecoder_ok (tea_decoder m) nhid2 nhid3 nhid4"
proof -
  from assms obtain enc u1 dec where
    1: "GCNencoder_init nfeat nhid1 nhid2 p u = Inr (enc, u1)" and
    2: "GCNdecoder_init nhid2 nhid3 nhid4 p u1 = Inr (dec, u')" and
    m: "m = \<lparr>tea_dropout = p, tea_encoder = enc, tea_decoder = dec\<rparr>"
    unfolding Teacher_init_def bind_result_def by (auto split: sum.splits)
  from GCNencoder_init_ok[OF 1] GCNdecoder_init_ok[OF 2] m show ?thesis by simp
qed

lemma Student_init_ok:
  assumes "Student_init nfeat nhid1 nhid2 nhid3 nhid4 p u = Inr (m, u')"
  shows "GCNencoder_ok (stu_encoder m) nfeat nhid1 nhid2 \<and>
         GCNdecoder_ok (stu_decoder m) nhid2 nhid3 nhid4"
proof -
  from assms obtain enc u1 dec where
    1: "GCNencoder_init nfeat nhid1 nhid2 p u = Inr (enc, u1)" and
    2: "GCNdecoder_init nhid2 nhid3 nhid4 p u1 = Inr (dec, u')" and
    m: "m = \<lparr>stu_dropout = p, stu_encoder = enc, stu_decoder = dec\<rparr>"
    unfolding Student_init_def bind_result_def by (auto split: sum.splits)
  from GCNencoder_init_ok[OF 1] GCNdecoder_init_ok[OF 2] m show ?thesis by simp
qed

lemma Teacher_eval:
  assumes "\<not> enc_training (tea_encoder t)" "\<not> dec_training (tea_decoder t)"
    and "Teacher_forward t x adj g = Inr ((emb, out), g')"
  shows "Teacher_forward t x adj h = Inr ((emb, out), h)"
proof -
  from assms(3) obtain g1 where
    enc: "GCNencoder_forward (tea_encoder t) x adj g = Inr (emb, g1)" and
    dec: "GCNdecoder_forward (tea_decoder t) emb adj g1 = Inr (out, g')"
    unfolding Teacher_forward_def bind_result_def by (auto split: sum.splits)
  from GCNencoder_eval[OF assms(1) enc, of h]
  have e: "GCNencoder_forward (tea_encoder t) x adj h = Inr (emb, h)" by simp
  from GCNdecoder_eval[OF assms(2) dec, of h]
  have d: "GCNdecoder_forward (tea_decoder t) emb adj h = Inr (out, h)" by simp
  show ?thesis unfolding Teacher_forward_def bind_result_def using e d by simp
qed

lemma Teacher_eval_fail:
  assumes "\<not> enc_training (tea_encoder t)" "\<not> dec_training (tea_decoder t)"
    and "Teacher_forward t x adj g = Inl err"
  shows "Teacher_forward t x adj h = Inl err"
proof (cases "GCNencoder_forward (tea_encoder t) x adj g")
  case (Inl e)
  with assms(3) have "e = err" unfolding Teacher_forward_def bind_result_def by simp
  with Inl GCNencoder_eval_fail[OF assms(1), of x adj g err h]
  show ?thesis unfolding Teacher_forward_def bind_result_def by simp
next
  case (Inr r)
  obtain emb g1 where r: "r = (emb, g1)" by (cases r)
  from GCNencoder_eval[OF assms(1) Inr[unfolded r], of h]
  have e: "g1 = g" "GCNencoder_forward (tea_encoder t) x adj h = Inr (emb, h)" by simp_all
  from assms(3) Inr r have "GCNdecoder_forward (tea_decoder t) emb adj g1 = Inl err"
    unfolding Teacher_forward_def bind_result_def by (auto split: sum.splits)
  from GCNdecoder_eval_fail[OF assms(2) this, of h]
  show ?thesis unfolding Teacher_forward_def bind_result_def using e by simp
qed

lemma Teacher_eval_rng:
  assumes "\<not> enc_training (tea_encoder t)" "\<not> dec_training (tea_decoder t)"
  shows "map_sum id fst (Teacher_forward t x adj h) = map_sum id fst (Teacher_forward t x adj g)"
proof (cases "Teacher_forward t x adj g")
  case (Inl err)
  with Teacher_eval_fail[OF assms this, of h] show ?thesis by simp
next
  case (Inr r)
  obtain emb out g' where r: "r = ((emb, out), g')" by (cases r) auto
  from Teacher_eval[OF assms Inr[unfolded r], of h] Inr r show ?thesis by simp
qed

text \<open>
  Claim C2. A \<open>Teacher\<close> and a \<open>Student\<close> built with the same hyperparameters and holding
  the same encoder and decoder parameters compute the same function: from equal generator
  states they return equal results, and in evaluation mode (dropout disabled) they return
  the same (embedding, output) pair, or raise the same error, whatever the generator
  states.
\<close>

theorem Teacher_Student_equal:
  assumes "stu_dropout s = tea_dropout t"
    and "stu_encoder s = tea_encoder t" and "stu_decoder s = tea_decoder t"
    and "\<not> enc_training (tea_encoder t)" and "\<not> dec_training (tea_decoder t)"
  shows "Student_forward s x adj g = Teacher_forward t x adj g \<and>
         map_sum id fst (Student_forward s x adj h) = map_sum id fst (Teacher_forward t x adj g)"
proof -
  have same: "Student_forward s x adj k = Teacher_forward t x adj k" for k
    unfolding Student_forward_def Teacher_forward_def using assms(2,3) by simp
  from same[of g] same[of h] Teacher_eval_rng[OF assms(4,5), of x adj h g]
  show ?thesis by simp
qed

theorem Teacher_Student_equal_witness:
  "stu_dropout example_student = tea_dropout example_teacher \<and>
   stu_encoder example_student = tea_encoder example_teacher \<and>
   stu_decoder example_student = tea_decoder example_teacher \<and>
   \<not> enc_training (tea_encoder example_teacher) \<and>
   \<not> dec_training (tea_decoder example_teacher) \<and>
   Student_forward example_student (one_node 4) (one_node 1) all_keep =
     Teacher_forward example_teacher (one_node 4) (one_node 1) all_keep \<and>
   map_sum id fst (Student_forward example_student (one_node 4) (one_node 1) (advance 7 all_keep)) =
     map_sum id fst (Teacher_forward example_teacher (one_node 4) (one_node 1) all_keep) \<and>
   Teacher_forward example_teacher (one_node 4) (one_node 1) all_keep =
     Inr ((one_node 3, one_node 1), all_keep)"
proof -
  have 1: "stu_dropout example_student = tea_dropout example_teacher"
    and 2: "stu_encoder example_student = tea_encoder example_teacher"
    and 3: "stu_decoder example_student = tea_decoder example_teacher"
    unfolding example_student_def example_teacher_def by simp_all
  from Teacher_Student_equal[OF 1 2 3 example_eval_mode,
      of "one_node 4" "one_node 1" all_keep "advance 7 all_keep"]
    1 2 3 example_eval_mode example_teacher_run
  show ?thesis by blast
qed

section \<open>Discriminator\<close>

lemma view_rows:
  assumes "has_shape a n k"
  shows "view a n = (if n = 0 \<or> k = 1 then Inr (concat (rows a)) else Inl RuntimeError)"
    and "length (concat (rows a)) = n * k"
proof -
  from assms have d: "nrows a = n" "ncols a = k" "length (rows a) = n"
      "\<forall>r\<in>set (rows a). length r = k"
    unfolding has_shape_def tensor_ok_def by (simp_all add: list_all_iff)
  show "view a n = (if n = 0 \<or> k = 1 then Inr (concat (rows a)) else Inl RuntimeError)"
    unfolding view_def using d(1,2) by auto
  have "map length (rows a) = replicate n k"
    using d(3,4) by (simp add: map_replicate_const cong: map_cong)
  then show "length (concat (rows a)) = n * k"
    by (simp add: length_concat sum_list_replicate)
qed

lemma Discriminator_stages:
  fixes X A :: "real tensor"
  assumes "has_shape X N input_size" "has_shape A N N"
    and "Discriminator_ok m input_size output_size"
    and "0 \<le> dis_dropout m" "dis_dropout m \<le> 1"
  shows "\<exists>s1 x1 g1 s2 x2 g2 a.
     GCN_forward (dis_gc1 m) X A = Inr s1 \<and> has_shape s1 N 32 \<and>
     dropout (dis_dropout m) (dis_training m) (relu s1) g = Inr (x1, g1) \<and>
     GCN_forward (dis_gc2 m) x1 A = Inr s2 \<and> has_shape s2 N 16 \<and>
     dropout (dis_dropout m) (dis_training m) (relu s2) g1 = Inr (x2, g2) \<and>
     GCN_forward (dis_gc3 m) x2 A = Inr a \<and> has_shape a N output_size \<and>
     Discriminator_forward m X A g =
       bind_result (view a N) (\<lambda>v. Inr ((F_sigmoid v, F_softmax v), g2))"
proof -
  from assms(3) have ok: "GCN_ok (dis_gc1 m)" "in_features (dis_gc1 m) = input_size"
      "out_features (dis_gc1 m) = 32" "GCN_ok (dis_gc2 m)" "in_features (dis_gc2 m) = 32"
      "out_features (dis_gc2 m) = 16" "GCN_ok (dis_gc3 m)" "in_features (dis_gc3 m) = 16"
      "out_features (dis_gc3 m) = output_size"
    unfolding Discriminator_ok_def by simp_all
  from GCN_forward_shape[of X N "dis_gc1 m" A] assms(1,2) ok obtain s1 where
    s1: "GCN_forward (dis_gc1 m) X A = Inr s1" "has_shape s1 N 32" by auto
  from dropout_result[OF assms(4,5) relu_shape[OF s1(2)], of "dis_training m" g]
  obtain x1 g1 where
    x1: "dropout (dis_dropout m) (dis_training m) (relu s1) g = Inr (x1, g1)"
        "has_shape x1 N 32"
    by blast
  from GCN_forward_shape[of x1 N "dis_gc2 m" A] x1(2) assms(2) ok obtain s2 where
    s2: "GCN_forward (dis_gc2 m) x1 A = Inr s2" "has_shape s2 N 16" by auto
  from dropout_result[OF assms(4,5) relu_shape[OF s2(2)], of "dis_training m" g1]
  obtain x2 g2 where
    x2: "dropout (dis_dropout m) (dis_training m) (relu s2) g1 = Inr (x2, g2)"
        "has_shape x2 N 16"
    by blast
  from GCN_forward_shape[of x2 N "dis_gc3 m" A] x2(2) assms(2) ok obtain a where
    a: "GCN_forward (dis_gc3 m) x2 A = Inr a" "has_shape a N output_size" by auto
  from a(2) have na: "nrows a = N" unfolding has_shape_def by simp
  have "Discriminator_forward m X A g =
       bind_result (view a N) (\<lambda>v. Inr ((F_sigmoid v, F_softmax v), g2))"
    unfolding Discriminator_forward_def using s1(1) x1(1) s2(1) x2(1) a(1) na
    by (simp add: bind_result_def)
  with s1 x1 s2 x2 a show ?thesis by blast
qed

lemma Discriminator_bad_dropout:
  assumes "dis_dropout m < 0 \<or> 1 < dis_dropout m"
  shows "Discriminator_forward m X A g \<noteq> Inr r"
  using assms unfolding Discriminator_forward_def bind_result_def dropout_def
  by (auto split: sum.splits)

lemma Discriminator_init_ok:
  assumes "Discriminator_init input_size output_size p u = Inr (m, u')"
  shows "Discriminator_ok m input_size output_size \<and> dis_dropout m = p \<and> dis_training m"
proof -
  from assms obtain gc1 u1 gc2 u2 gc3 where
    1: "GCN_init input_size 32 True u = Inr (gc1, u1)" and
    2: "GCN_init 32 16 True u1 = Inr (gc2, u2)" and
    3: "GCN_init 16 output_size True u2 = Inr (gc3, u')" and
    m: "m = \<lparr>dis_dropout = p, dis_training = True,
             dis_gc1 = gc1, dis_gc2 = gc2, dis_gc3 = gc3\<rparr>"
    unfolding Discriminator_init_def bind_result_def by (auto split: sum.splits)
  from GCN_init_ok[OF 1] GCN_init_ok[OF 2] GCN_init_ok[OF 3] m show ?thesis
    unfolding Discriminator_ok_def by simp
qed

lemma example_discriminator_ok: "Discriminator_ok (example_discriminator k) 1 k"
  unfolding Discriminator_ok_def example_discriminator_def
  by (simp add: const_layer_ok) (simp add: const_layer_def)

lemma example_discriminator_dropout:
  "0 \<le> dis_dropout (example_discriminator k)" "dis_dropout (example_discriminator k) \<le> 1"
  unfolding example_discriminator_def by simp_all

text \<open>
  Claim C4. \<open>Discriminator.forward\<close> chains three graph-convolution stages of sizes
  \<open>input_size \<rightarrow> 32 \<rightarrow> 16 \<rightarrow> output_size\<close>, with rectified-linear activation and dropout
  after the first stage and after the second, reshapes the third stage's \<open>(N, output_size)\<close>
  result to a vector of length \<open>N\<close>, and returns two views of that one vector: its
  elementwise sigmoid and its softmax. With \<open>output_size = 1\<close> the reshape succeeds and
  both views have length \<open>N\<close>.
\<close>

theorem Discriminator_forward_spec:
  fixes X A :: "real tensor"
  assumes "has_shape X N input_size" and "has_shape A N N"
    and "Discriminator_ok m input_size output_size"
    and "0 \<le> dis_dropout m" and "dis_dropout m \<le> 1"
  shows "\<exists>s1 x1 g1 s2 x2 g2 a.
     GCN_forward (dis_gc1 m) X A = Inr s1 \<and> has_shape s1 N 32 \<and>
     dropout (dis_dropout m) (dis_training m) (relu s1) g = Inr (x1, g1) \<and>
     GCN_forward (dis_gc2 m) x1 A = Inr s2 \<and> has_shape s2 N 16 \<and>
     dropout (dis_dropout m) (dis_training m) (relu s2) g1 = Inr (x2, g2) \<and>
     GCN_forward (dis_gc3 m) x2 A = Inr a \<and> has_shape a N output_size \<and>
     Discriminator_forward m X A g =
       bind_result (view a N) (\<lambda>v. Inr ((F_sigmoid v, F_softmax v), g2)) \<and>
     (output_size = 1 \<longrightarrow>
        length (concat (rows a)) = N \<and>
        Discriminator_forward m X A g =
          Inr ((F_sigmoid (concat (rows a)), F_softmax (concat (rows a))), g2))"
proof -
  from Discriminator_stages[OF assms, of g] obtain s1 x1 g1 s2 x2 g2 a where
    st: "GCN_forward (dis_gc1 m) X A = Inr s1" "has_shape s1 N 32"
     "dropout (dis_dropout m) (dis_training m) (relu s1) g = Inr (x1, g1)"
     "GCN_forward (dis_gc2 m) x1 A = Inr s2" "has_shape s2 N 16"
     "dropout (dis_dropout m) (dis_training m) (relu s2) g1 = Inr (x2, g2)"
     "GCN_forward (dis_gc3 m) x2 A = Inr a" "has_shape a N output_size"
     "Discriminator_forward m X A g =
       bind_result (view a N) (\<lambda>v. Inr ((F_sigmoid v, F_softmax v), g2))"
    by blast
  have "length (concat (rows a)) = N \<and>
        Discriminator_forward m X A g =
          Inr ((F_sigmoid (concat (rows a)), F_softmax (concat (rows a))), g2)"
    if "output_size = 1"
    using view_rows[OF st(8)] st(9) that by (simp add: bind_result_def)
  with st show ?thesis by blast
qed

theorem Discriminator_forward_spec_witness:
  "has_shape (one_node (2 :: real)) 1 1 \<and> has_shape (one_node (1 :: real)) 1 1 \<and>
   Discriminator_ok (example_discriminator 1) 1 1 \<and>
   0 \<le> dis_dropout (example_discriminator 1) \<and> dis_dropout (example_discriminator 1) \<le> 1 \<and>
   (\<exists>a g2. has_shape a 1 1 \<and> length (concat (rows a)) = 1 \<and>
      Discriminator_forward (example_discriminator 1) (one_node 2) (one_node 1) all_keep =
        Inr ((F_sigmoid (concat (rows a)), F_softmax (concat (rows a))), g2))"
proof -
  have x: "has_shape (one_node (2 :: real)) 1 1" and a: "has_shape (one_node (1 :: real)) 1 1"
    by (rule one_node_shape)+
  note t = Discriminator_forward_spec[where X = "one_node 2" and A = "one_node 1" and N = 1
      and input_size = 1 and output_size = 1 and m = "example_discriminator 1"
      and g = all_keep,
      OF x a example_discriminator_ok example_discriminator_dropout]
  from t x a example_discriminator_ok[of 1] example_discriminator_dropout[of 1]
  show ?thesis by blast
qed

text \<open>
  Claim C9. For a graph with at least one node and an \<open>output_size\<close> other than 1,
  \<open>Discriminator.forward\<close> never returns: the three stages run, and the reshape of their
  \<open>(N, output_size)\<close> result to a vector of length \<open>N\<close> raises.
\<close>

theorem Discriminator_view_fails:
  fixes X A :: "real tensor"
  assumes "has_shape X N input_size" and "has_shape A N N"
    and "Discriminator_ok m input_size output_size"
    and "0 < N" and "output_size \<noteq> 1"
  shows "(\<forall>r. Discriminator_forward m X A g \<noteq> Inr r) \<and>
    (0 \<le> dis_dropout m \<and> dis_dropout m \<le> 1 \<longrightarrow>
      (\<exists>s1 x1 g1 s2 x2 g2 a.
         GCN_forward (dis_gc1 m) X A = Inr s1 \<and>
         dropout (dis_dropout m) (dis_training m) (relu s1) g = Inr (x1, g1) \<and>
         GCN_forward (dis_gc2 m) x1 A = Inr s2 \<and>
         dropout (dis_dropout m) (dis_training m) (relu s2) g1 = Inr (x2, g2) \<and>
         GCN_forward (dis_gc3 m) x2 A = Inr a \<and> has_shape a N output_size \<and>
         view a (nrows a) = Inl RuntimeError \<and>
         Discriminator_forward m X A g = Inl RuntimeError))"
proof -
  have valid: "\<exists>s1 x1 g1 s2 x2 g2 a.
         GCN_forward (dis_gc1 m) X A = Inr s1 \<and>
         dropout (dis_dropout m) (dis_training m) (relu s1) g = Inr (x1, g1) \<and>
         GCN_forward (dis_gc2 m) x1 A = Inr s2 \<and>
         dropout (dis_dropout m) (dis_training m) (relu s2) g1 = Inr (x2, g2) \<and>
         GCN_forward (dis_gc3 m) x2 A = Inr a \<and> has_shape a N output_size \<and>
         view a (nrows a) = Inl RuntimeError \<and>
         Discriminator_forward m X A g = Inl RuntimeError"
    if p: "0 \<le> dis_dropout m" "dis_dropout m \<le> 1"
  proof -
    from Discriminator_stages[OF assms(1,2,3) p, of g] obtain s1 x1 g1 s2 x2 g2 a where
      st: "GCN_forward (dis_gc1 m) X A = Inr s1"
       "dropout (dis_dropout m) (dis_training m) (relu s1) g = Inr (x1, g1)"
       "GCN_forward (dis_gc2 m) x1 A = Inr s2"
       "dropout (dis_dropout m) (dis_training m) (relu s2) g1 = Inr (x2, g2)"
       "GCN_forward (dis_gc3 m) x2 A = Inr a" "has_shape a N output_size"
       "Discriminator_forward m X A g =
         bind_result (view a N) (\<lambda>v. Inr ((F_sigmoid v, F_softmax v), g2))"
      by blast
    from st(6) have na: "nrows a = N" unfolding has_shape_def by simp
    have v: "view a N = Inl RuntimeError"
      using view_rows(1)[OF st(6)] assms(4,5) by simp
    then have "Discriminator_forward m X A g = Inl RuntimeError"
      using st(7) by (simp add: bind_result_def)
    with st v na show ?thesis by blast
  qed
  have "Discriminator_forward m X A g \<noteq> Inr r" for r
  proof (cases "0 \<le> dis_dropout m \<and> dis_dropout m \<le> 1")
    case True
    with valid show ?thesis by auto
  next
    case False
    then have "dis_dropout m < 0 \<or> 1 < dis_dropout m" by auto
    then show ?thesis by (rule Discriminator_bad_dropout)
  qed
  with valid show ?thesis by blast
qed

theorem Discriminator_view_fails_witness:
  "has_shape (one_node (2 :: real)) 1 1 \<and> has_shape (one_node (1 :: real)) 1 1 \<and>
   Discriminator_ok (example_discriminator 2) 1 2 \<and> (0::nat) < 1 \<and> (2::nat) \<noteq> 1 \<and>
   0 \<le> dis_dropout (example_discriminator 2) \<and> dis_dropout (example_discriminator 2) \<le> 1 \<and>
   Discriminator_forward (example_discriminator 2) (one_node 2) (one_node 1) all_keep =
     Inl RuntimeError"
proof -
  have n: "(0::nat) < 1" and k: "(2::nat) \<noteq> 1" by simp_all
  have x: "has_shape (one_node (2 :: real)) 1 1" and a: "has_shape (one_node (1 :: real)) 1 1"
    by (rule one_node_shape)+
  note t = Discriminator_view_fails[where X = "one_node 2" and A = "one_node 1" and N = 1
      and input_size = 1 and output_size = 2 and m = "example_discriminator 2"
      and g = all_keep,
      OF x a example_discriminator_ok n k]
  from t x a n k example_discriminator_ok[of 2] example_discriminator_dropout[of 2]
  show ?thesis by blast
qed

section \<open>Sigmoid and softmax on floats\<close>




































end
